theory Spec2Isabelle
  imports Complex_Main "HOL-Library.AList"
begin

section \<open>Python values and exceptions\<close>

text \<open>
  The program is Python. Strings are lists of code points below 256, floats are exact
  rationals (plus the three non-finite values), and a raised exception is the left
  summand of a result. Every exception class listed here is a subclass of Python's
  \<open>Exception\<close>.
\<close>

datatype py_exn =
  JSONDecodeError | ValueError | TypeError | OverflowError | AttributeError | RecursionError

datatype pyfloat = Finite rat | PosInf | NegInf | NaN

text \<open>What \<open>json.loads\<close> returns: \<open>None\<close>, \<open>bool\<close>, \<open>int\<close>, \<open>float\<close>, \<open>str\<close>, \<open>list\<close>, \<open>dict\<close>.
  A dict is an association list in insertion order.\<close>

datatype json =
  JNull | JBool bool | JInt int | JFloat pyfloat | JStr string
  | JArr "json list" | JObj "(string \<times> json) list"

type_synonym loads_fn = "string \<Rightarrow> py_exn + json"

section \<open>String primitives\<close>

text \<open>\<open>str.isspace\<close> and the regex class \<open>\s\<close> agree on code points below 256:
  9..13, 28..32, 0x85 and 0xA0.\<close>

definition is_space :: "char \<Rightarrow> bool" where
  "is_space c = (let n = (of_char c :: nat) in
     (9 \<le> n \<and> n \<le> 13) \<or> (28 \<le> n \<and> n \<le> 32) \<or> n = 133 \<or> n = 160)"

definition is_digit :: "char \<Rightarrow> bool" where
  "is_digit c = (let n = (of_char c :: nat) in 48 \<le> n \<and> n \<le> 57)"

fun starts_with :: "string \<Rightarrow> string \<Rightarrow> bool" where
  "starts_with [] s = True"
| "starts_with (p # ps) [] = False"
| "starts_with (p # ps) (c # cs) = (p = c \<and> starts_with ps cs)"

text \<open>\<open>s.find(sub)\<close>: the index of the first occurrence, or \<open>-1\<close>.\<close>

fun find_at :: "string \<Rightarrow> string \<Rightarrow> nat \<Rightarrow> int" where
  "find_at sub [] k = (if sub = [] then int k else -1)"
| "find_at sub (c # cs) k =
     (if starts_with sub (c # cs) then int k else find_at sub cs (Suc k))"

definition str_find :: "string \<Rightarrow> string \<Rightarrow> int" where
  "str_find s sub = find_at sub s 0"

text \<open>\<open>s.rfind(c)\<close> for a one-character \<open>c\<close>: the index of the last occurrence, or \<open>-1\<close>.\<close>

fun rfind_at :: "char \<Rightarrow> string \<Rightarrow> nat \<Rightarrow> int \<Rightarrow> int" where
  "rfind_at c [] k best = best"
| "rfind_at c (x # xs) k best = rfind_at c xs (Suc k) (if x = c then int k else best)"

definition str_rfind :: "string \<Rightarrow> char \<Rightarrow> int" where
  "str_rfind s c = rfind_at c s 0 (-1)"

text \<open>\<open>s[i:j]\<close> for \<open>0 \<le> i\<close> and \<open>0 \<le> j\<close>.\<close>

definition slice :: "string \<Rightarrow> int \<Rightarrow> int \<Rightarrow> string" where
  "slice s i j = take (nat j - nat i) (drop (nat i) s)"

definition strip :: "string \<Rightarrow> string" where
  "strip s = rev (dropWhile is_space (rev (dropWhile is_space s)))"

section \<open>The fenced code block of step 1\<close>

text \<open>
  \<open>re.search(r"```(?:json)?\s*(.*?)```", text, re.DOTALL)\<close>, returning \<open>group(1)\<close>.
  Neither a letter of \<open>json\<close> nor a white-space character is a backquote, so the greedy
  prefix \<open>```(?:json)?\s*\<close> never swallows part of a closing fence: the search succeeds
  at the first \<open>```\<close> of the text iff another \<open>```\<close> starts after the prefix, and the lazy
  group ends at the first such one. When the first \<open>```\<close> has no closing fence no later
  start has one either.
\<close>

definition fence :: string where
  "fence = [CHR 0x60, CHR 0x60, CHR 0x60]"

fun until_fence :: "string \<Rightarrow> string option" where
  "until_fence [] = None"
| "until_fence (c # cs) =
     (if starts_with fence (c # cs) then Some []
      else (case until_fence cs of None \<Rightarrow> None | Some g \<Rightarrow> Some (c # g)))"

definition after_open :: "string \<Rightarrow> string" where
  "after_open r =
     dropWhile is_space (if starts_with ''json'' r then drop 4 r else r)"

fun search_fenced :: "string \<Rightarrow> string option" where
  "search_fenced [] = None"
| "search_fenced (c # cs) =
     (if starts_with fence (c # cs) then until_fence (after_open (drop 3 (c # cs)))
      else search_fenced cs)"

section \<open>extract_json\<close>

text \<open>Step 2 of \<open>extract_json\<close>: the slice from the first \<open>[\<close> or \<open>{\<close> to the last matching
  closing bracket, when there is one after it.\<close>

definition bracket_slice :: "string \<Rightarrow> string option" where
  "bracket_slice text =
     (let list_start = str_find text ''['';
          dict_start = str_find text ''{'';
          (start_idx, end_char) =
             (if list_start \<noteq> -1 \<and> (dict_start = -1 \<or> list_start < dict_start)
              then (list_start, CHR '']'')
              else if dict_start \<noteq> -1 then (dict_start, CHR ''}'')
              else (-1, CHR ''}''))
      in if start_idx \<noteq> -1
         then (let end_idx = str_rfind text end_char in
               if end_idx \<noteq> -1 \<and> end_idx > start_idx
               then Some (slice text start_idx (end_idx + 1))
               else None)
         else None)"

text \<open>The body of the \<open>try\<close> block; \<open>loads\<close> is \<open>json.loads\<close>. Each step that applies
  returns what \<open>loads\<close> returns or raises.\<close>

definition extract_json_try :: "loads_fn \<Rightarrow> string \<Rightarrow> py_exn + json" where
  "extract_json_try loads text =
     (case search_fenced text of
        Some g \<Rightarrow> loads (strip g)
      | None \<Rightarrow>
         (case bracket_slice text of
            Some json_str \<Rightarrow> loads json_str
          | None \<Rightarrow> loads text))"

text \<open>Both handlers, \<open>except json.JSONDecodeError\<close> and \<open>except Exception\<close>, return \<open>None\<close>.\<close>

definition extract_json :: "loads_fn \<Rightarrow> string \<Rightarrow> py_exn + json" where
  "extract_json loads text =
     (case extract_json_try loads text of
        Inl e \<Rightarrow> (if e = JSONDecodeError then Inr JNull else Inr JNull)
      | Inr v \<Rightarrow> Inr v)"

section \<open>A JSON reader for concrete inputs\<close>

text \<open>
  A recursive-descent reader for JSON without fractions, exponents and string escapes:
  \<open>null\<close>, \<open>true\<close>, \<open>false\<close>, integers, plain strings, arrays and objects, with the
  white space of JSON. On such texts it returns what \<open>json.loads\<close> returns (a repeated
  key keeps its first position and its last value); any other text is rejected.
  The fuel is the length of the text, and every call consumes a character.
\<close>

definition json_ws :: "char \<Rightarrow> bool" where
  "json_ws c = (c = CHR '' '' \<or> c = CHR 0x09 \<or> c = CHR 0x0A \<or> c = CHR 0x0D)"

definition skip_ws :: "string \<Rightarrow> string" where
  "skip_ws s = dropWhile json_ws s"

definition digit_val :: "char \<Rightarrow> int" where
  "digit_val c = int (of_char c) - 48"

fun digits_val :: "int \<Rightarrow> string \<Rightarrow> int" where
  "digits_val acc [] = acc"
| "digits_val acc (c # cs) = digits_val (acc * 10 + digit_val c) cs"

text \<open>An integer literal \<open>-?(0|[1-9][0-9]*)\<close> not followed by a fraction or an exponent.\<close>

definition read_nat :: "string \<Rightarrow> (int \<times> string) option" where
  "read_nat s =
     (let ds = takeWhile is_digit s; r = dropWhile is_digit s in
      if ds = [] then None
      else if hd ds = CHR ''0'' \<and> length ds > 1 then None
      else if r \<noteq> [] \<and> (hd r = CHR ''.'' \<or> hd r = CHR ''e'' \<or> hd r = CHR ''E'') then None
      else Some (digits_val 0 ds, r))"

definition read_int :: "string \<Rightarrow> (int \<times> string) option" where
  "read_int s =
     (case s of
        [] \<Rightarrow> None
      | c # cs \<Rightarrow>
          if c = CHR ''-''
          then (case read_nat cs of None \<Rightarrow> None | Some (n, r) \<Rightarrow> Some (- n, r))
          else read_nat s)"

text \<open>The characters of a string up to its closing quote; a backslash or a control
  character is rejected.\<close>

fun read_string :: "string \<Rightarrow> (string \<times> string) option" where
  "read_string [] = None"
| "read_string (c # cs) =
     (if c = CHR 0x22 then Some ([], cs)
      else if c = CHR 0x5C \<or> (of_char c :: nat) < 32 then None
      else (case read_string cs of None \<Rightarrow> None | Some (s, r) \<Rightarrow> Some (c # s, r)))"

fun read_value :: "nat \<Rightarrow> string \<Rightarrow> (json \<times> string) option"
  and read_elems :: "nat \<Rightarrow> string \<Rightarrow> json list \<Rightarrow> (json \<times> string) option"
  and read_members :: "nat \<Rightarrow> string \<Rightarrow> (string \<times> json) list \<Rightarrow> (json \<times> string) option"
where
  "read_value 0 s = None"
| "read_value (Suc n) s =
     (case s of
        [] \<Rightarrow> None
      | c # cs \<Rightarrow>
          if starts_with ''null'' s then Some (JNull, drop 4 s)
          else if starts_with ''true'' s then Some (JBool True, drop 4 s)
          else if starts_with ''false'' s then Some (JBool False, drop 5 s)
          else if c = CHR 0x22
          then (case read_string cs of None \<Rightarrow> None | Some (t, r) \<Rightarrow> Some (JStr t, r))
          else if c = CHR ''[''
          then (case skip_ws cs of
                  [] \<Rightarrow> None
                | d # ds \<Rightarrow> if d = CHR '']'' then Some (JArr [], ds)
                            else read_elems n (d # ds) [])
          else if c = CHR ''{''
          then (case skip_ws cs of
                  [] \<Rightarrow> None
                | d # ds \<Rightarrow> if d = CHR ''}'' then Some (JObj [], ds)
                            else read_members n (d # ds) [])
          else (case read_int s of None \<Rightarrow> None | Some (i, r) \<Rightarrow> Some (JInt i, r)))"
| "read_elems 0 s acc = None"
| "read_elems (Suc n) s acc =
     (case read_value n s of
        None \<Rightarrow> None
      | Some (v, r) \<Rightarrow>
          (case skip_ws r of
             [] \<Rightarrow> None
           | d # ds \<Rightarrow>
               if d = CHR '','' then read_elems n (skip_ws ds) (acc @ [v])
               else if d = CHR '']'' then Some (JArr (acc @ [v]), ds)
               else None))"
| "read_members 0 s acc = None"
| "read_members (Suc n) s acc =
     (case s of
        [] \<Rightarrow> None
      | q # qs \<Rightarrow>
          if q \<noteq> CHR 0x22 then None
          else (case read_string qs of
                  None \<Rightarrow> None
                | Some (k, r) \<Rightarrow>
                    (case skip_ws r of
                       [] \<Rightarrow> None
                     | d # ds \<Rightarrow>
                         if d \<noteq> CHR '':'' then None
                         else (case read_value n (skip_ws ds) of
                                 None \<Rightarrow> None
                               | Some (v, r') \<Rightarrow>
                                   (case skip_ws r' of
                                      [] \<Rightarrow> None
                                    | e # es \<Rightarrow>
                                        if e = CHR '','' then
                                          read_members n (skip_ws es) (AList.update k v acc)
                                        else if e = CHR ''}'' then
                                          Some (JObj (AList.update k v acc), es)
                                        else None)))))"

definition json_loads :: loads_fn where
  "json_loads s =
     (case read_value (Suc (length s)) (skip_ws s) of
        None \<Rightarrow> Inl JSONDecodeError
      | Some (v, r) \<Rightarrow> if skip_ws r = [] then Inr v else Inl JSONDecodeError)"


section \<open>Dynamic values\<close>

text \<open>
  The library functions the code calls besides \<open>json.loads\<close>: \<open>str(v)\<close> (the text an
  f-string puts for a value) and \<open>int(s)\<close> on a \<open>str\<close>, where \<open>None\<close> stands for the
  \<open>ValueError\<close> of a text that is no integer literal.
\<close>

record py_env =
  loads_of :: loads_fn
  str_of :: "json \<Rightarrow> string"
  int_of_str :: "string \<Rightarrow> int option"

text \<open>\<open>d.get(k, default)\<close> on a dict, and \<open>k in d\<close>.\<close>

definition dict_get :: "(string \<times> json) list \<Rightarrow> string \<Rightarrow> json \<Rightarrow> json" where
  "dict_get d k dflt = (case map_of d k of None \<Rightarrow> dflt | Some v \<Rightarrow> v)"

text \<open>\<open>v.get(k, default)\<close> on any value: only a dict has the method.\<close>

definition py_get :: "json \<Rightarrow> string \<Rightarrow> json \<Rightarrow> py_exn + json" where
  "py_get v k dflt = (case v of JObj d \<Rightarrow> Inr (dict_get d k dflt) | _ \<Rightarrow> Inl AttributeError)"

text \<open>Truth value of a value in a condition.\<close>

definition truthy :: "json \<Rightarrow> bool" where
  "truthy v =
     (case v of
        JNull \<Rightarrow> False
      | JBool b \<Rightarrow> b
      | JInt i \<Rightarrow> i \<noteq> 0
      | JFloat f \<Rightarrow> f \<noteq> Finite 0
      | JStr t \<Rightarrow> t \<noteq> []
      | JArr xs \<Rightarrow> xs \<noteq> []
      | JObj d \<Rightarrow> d \<noteq> [])"

text \<open>\<open>v[:n]\<close>: a \<open>str\<close> and a \<open>list\<close> can be sliced, any other value raises.\<close>

definition py_slice_to :: "json \<Rightarrow> nat \<Rightarrow> py_exn + json" where
  "py_slice_to v n =
     (case v of
        JStr t \<Rightarrow> Inr (JStr (take n t))
      | JArr xs \<Rightarrow> Inr (JArr (take n xs))
      | _ \<Rightarrow> Inl TypeError)"

text \<open>The comparisons \<open>x >= v\<close> and \<open>x < v\<close> of a float \<open>x\<close> with a value: numbers compare,
  \<open>nan\<close> compares false, a value that is no number raises \<open>TypeError\<close>.\<close>

definition py_ge :: "rat \<Rightarrow> json \<Rightarrow> py_exn + bool" where
  "py_ge x v =
     (case v of
        JInt i \<Rightarrow> Inr (x \<ge> of_int i)
      | JBool b \<Rightarrow> Inr (x \<ge> (if b then 1 else 0))
      | JFloat f \<Rightarrow>
          (case f of Finite q \<Rightarrow> Inr (x \<ge> q) | PosInf \<Rightarrow> Inr False
           | NegInf \<Rightarrow> Inr True | NaN \<Rightarrow> Inr False)
      | _ \<Rightarrow> Inl TypeError)"

definition py_lt :: "rat \<Rightarrow> json \<Rightarrow> py_exn + bool" where
  "py_lt x v =
     (case v of
        JInt i \<Rightarrow> Inr (x < of_int i)
      | JBool b \<Rightarrow> Inr (x < (if b then 1 else 0))
      | JFloat f \<Rightarrow>
          (case f of Finite q \<Rightarrow> Inr (x < q) | PosInf \<Rightarrow> Inr True
           | NegInf \<Rightarrow> Inr False | NaN \<Rightarrow> Inr False)
      | _ \<Rightarrow> Inl TypeError)"

text \<open>\<open>round(x, 2)\<close>: to the nearest hundredth, a tie to the even one.\<close>

definition py_round2 :: "rat \<Rightarrow> rat" where
  "py_round2 x =
     (let y = x * 100; f = \<lfloor>y\<rfloor>; d = y - of_int f in
      of_int (if d < 1 / 2 then f else if d > 1 / 2 then f + 1
              else if even f then f else f + 1) / 100)"

text \<open>\<open>s.lower()\<close> on code points below 256.\<close>

definition py_lower :: "char \<Rightarrow> char" where
  "py_lower c =
     (let n = (of_char c :: nat) in
      if (65 \<le> n \<and> n \<le> 90) \<or> (192 \<le> n \<and> n \<le> 222 \<and> n \<noteq> 215)
      then char_of (n + 32) else c)"

text \<open>\<open>sep.join(parts)\<close>.\<close>

fun join :: "string \<Rightarrow> string list \<Rightarrow> string" where
  "join sep [] = []"
| "join sep [x] = x"
| "join sep (x # y # ys) = x @ sep @ join sep (y # ys)"

section \<open>The data model (core/types.py)\<close>

text \<open>A field holds whatever the code puts there: the fields filled from parsed model
  output are values of any JSON type, whatever the annotation of the dataclass says.\<close>

record CritiqueMetrics =
  novelty_score :: int
  feasibility_score :: int
  specificity_score :: int
  impact_score :: int
  average_score :: rat
  feedback_text :: json
  raw_response :: "string option"


record IdeaContent =
  title :: json
  methodology :: json
  description :: json
  raw_content :: "string option"

record RefinementDetails =
  original_title :: json
  original_methodology :: json
  critique_feedback :: json
  critique_score :: rat
  refinement_reasoning :: json
  changes_made :: json

record IdeaSnapshot =
  iteration :: int
  role :: string
  content :: "IdeaContent option"
  critique :: "CritiqueMetrics option"
  refinement_details :: "RefinementDetails option"

record IdeaObject =
  idea_id :: string
  current_iteration :: int
  status :: string
  evolution_history :: "IdeaSnapshot list"

definition latest_content :: "IdeaObject \<Rightarrow> IdeaContent option" where
  "latest_content idea =
     (if evolution_history idea = [] then None else content (last (evolution_history idea)))"

definition latest_critique :: "IdeaObject \<Rightarrow> CritiqueMetrics option" where
  "latest_critique idea =
     (if evolution_history idea = [] then None else critique (last (evolution_history idea)))"

section \<open>The critique builder (agents/critic.py)\<close>

text \<open>\<open>_safe_int\<close>: \<open>int(value)\<close> with \<open>ValueError\<close> and \<open>TypeError\<close> turned into 0. An infinite
  float raises \<open>OverflowError\<close>, which the handler does not name.\<close>

definition safe_int :: "py_env \<Rightarrow> json \<Rightarrow> py_exn + int" where
  "safe_int env v =
     (case v of
        JInt i \<Rightarrow> Inr i
      | JBool b \<Rightarrow> Inr (if b then 1 else 0)
      | JFloat f \<Rightarrow>
          (case f of
             Finite q \<Rightarrow> Inr (if q \<ge> 0 then \<lfloor>q\<rfloor> else \<lceil>q\<rceil>)
           | NaN \<Rightarrow> Inr 0
           | _ \<Rightarrow> Inl OverflowError)
      | JStr t \<Rightarrow> (case int_of_str env t of None \<Rightarrow> Inr 0 | Some i \<Rightarrow> Inr i)
      | _ \<Rightarrow> Inr 0)"

text \<open>The average of both paths: the mean of the scores above 0, rounded when stored.\<close>

definition mean_valid :: "int list \<Rightarrow> rat" where
  "mean_valid scores =
     (let valid_scores = filter (\<lambda>s. s > 0) scores
      in if valid_scores \<noteq> []
         then of_int (sum_list valid_scores) / of_nat (length valid_scores) else 0)"

text \<open>One reasoning section: added when the field is truthy.\<close>

definition reasoning_part :: "py_env \<Rightarrow> (string \<times> json) list \<Rightarrow> string \<Rightarrow> string \<Rightarrow> int \<Rightarrow> string list" where
  "reasoning_part env d key label score =
     (if truthy (dict_get d key JNull)
      then [''**'' @ label @ '' ('' @ str_of env (JInt score) @ ''/5):** ''
              @ str_of env (dict_get d key JNull)]
      else [])"

definition bullet_part :: "py_env \<Rightarrow> (string \<times> json) list \<Rightarrow> string \<Rightarrow> string \<Rightarrow> string list" where
  "bullet_part env d key heading =
     (if truthy (dict_get d key JNull)
      then (case dict_get d key JNull of
              JArr ws \<Rightarrow> [heading @ [CHR 0x0A] @ join [CHR 0x0A] (map (\<lambda>w. ''- '' @ str_of env w) ws)]
            | _ \<Rightarrow> [])
      else [])"

definition feedback_parts :: "py_env \<Rightarrow> (string \<times> json) list \<Rightarrow> int \<Rightarrow> int \<Rightarrow> int \<Rightarrow> int \<Rightarrow> string list" where
  "feedback_parts env d novelty feasibility specificity impact =
     (if truthy (dict_get d ''overall_feedback'' JNull)
      then [''**Overall Assessment:** '' @ str_of env (dict_get d ''overall_feedback'' JNull)]
      else [])
     @ reasoning_part env d ''novelty_reasoning'' ''Novelty'' novelty
     @ reasoning_part env d ''feasibility_reasoning'' ''Feasibility'' feasibility
     @ reasoning_part env d ''specificity_reasoning'' ''Specificity'' specificity
     @ reasoning_part env d ''impact_reasoning'' ''Impact'' impact
     @ bullet_part env d ''key_weaknesses'' ''**Key Weaknesses:**''
     @ bullet_part env d ''key_strengths'' ''**Key Strengths:**''"

text \<open>The JSON path of \<open>_parse_critique_response\<close>, for the dict \<open>d\<close>.\<close>

definition critique_record :: "py_env \<Rightarrow> (string \<times> json) list \<Rightarrow> string \<Rightarrow> int \<Rightarrow> int \<Rightarrow> int \<Rightarrow> int \<Rightarrow> CritiqueMetrics" where
  "critique_record env d response novelty feasibility specificity impact =
     (let parts = feedback_parts env d novelty feasibility specificity impact;
          feedback = (if parts \<noteq> [] then JStr (join [CHR 0x0A, CHR 0x0A] parts)
                      else dict_get d ''overall_feedback'' (JStr ''No detailed feedback provided.''));
          average = mean_valid [novelty, feasibility, specificity, impact]
      in \<lparr> novelty_score = novelty, feasibility_score = feasibility,
            specificity_score = specificity, impact_score = impact,
            average_score = py_round2 average, feedback_text = feedback,
            raw_response = Some response \<rparr>)"

definition critique_of_dict :: "py_env \<Rightarrow> (string \<times> json) list \<Rightarrow> string \<Rightarrow> py_exn + CritiqueMetrics" where
  "critique_of_dict env d response =
     (case safe_int env (dict_get d ''novelty_score'' (JInt 0)) of
        Inl e \<Rightarrow> Inl e
      | Inr novelty \<Rightarrow>
     (case safe_int env (dict_get d ''feasibility_score'' (JInt 0)) of
        Inl e \<Rightarrow> Inl e
      | Inr feasibility \<Rightarrow>
     (case safe_int env (dict_get d ''specificity_score'' (JInt 0)) of
        Inl e \<Rightarrow> Inl e
      | Inr specificity \<Rightarrow>
     (case safe_int env (dict_get d ''impact_score'' (JInt 0)) of
        Inl e \<Rightarrow> Inl e
      | Inr impact \<Rightarrow>
          Inr (critique_record env d response novelty feasibility specificity impact)))))"

text \<open>
  The two patterns of \<open>_find_score\<close>, searched in the lower-cased text:
  \<open>kw[:\s]+(\d)[/\s]?5?\<close> and \<open>kw\s+score[:\s]+(\d)\<close>. A digit is neither a colon nor
  white space and \<open>s\<close> is no white space, so each greedy run is the longest one, and the
  optional tail of the first pattern does not change the group. The result is the group
  of the leftmost match.
\<close>

definition is_sep :: "char \<Rightarrow> bool" where
  "is_sep c = (c = CHR '':'' \<or> is_space c)"

definition digit_after :: "string \<Rightarrow> string \<Rightarrow> char option" where
  "digit_after r r' =
     (if length r' < length r \<and> r' \<noteq> [] \<and> is_digit (hd r') then Some (hd r') else None)"

definition match_kw_digit :: "string \<Rightarrow> string \<Rightarrow> char option" where
  "match_kw_digit kw s =
     (if starts_with kw s
      then (let r = drop (length kw) s in digit_after r (dropWhile is_sep r))
      else None)"

definition match_kw_score_digit :: "string \<Rightarrow> string \<Rightarrow> char option" where
  "match_kw_score_digit kw s =
     (if starts_with kw s
      then (let r = drop (length kw) s; r1 = dropWhile is_space r in
            if length r1 < length r \<and> starts_with ''score'' r1
            then (let r2 = drop 5 r1 in digit_after r2 (dropWhile is_sep r2))
            else None)
      else None)"

fun re_search :: "(string \<Rightarrow> char option) \<Rightarrow> string \<Rightarrow> char option" where
  "re_search m [] = m []"
| "re_search m (c # cs) =
     (case m (c # cs) of Some g \<Rightarrow> Some g | None \<Rightarrow> re_search m cs)"

definition score_of_match :: "char option \<Rightarrow> int option" where
  "score_of_match g =
     (case g of
        None \<Rightarrow> None
      | Some c \<Rightarrow> (let score = digit_val c in
                    if 1 \<le> score \<and> score \<le> 5 then Some score else None))"

fun find_score_in :: "string \<Rightarrow> string list \<Rightarrow> int" where
  "find_score_in text_lower [] = 0"
| "find_score_in text_lower (keyword # keywords) =
     (case score_of_match (re_search (match_kw_digit keyword) text_lower) of
        Some score \<Rightarrow> score
      | None \<Rightarrow>
         (case score_of_match (re_search (match_kw_score_digit keyword) text_lower) of
            Some score \<Rightarrow> score
          | None \<Rightarrow> find_score_in text_lower keywords))"

definition find_score :: "string \<Rightarrow> string list \<Rightarrow> int" where
  "find_score text keywords = find_score_in (map py_lower text) keywords"

definition parse_from_text :: "string \<Rightarrow> CritiqueMetrics" where
  "parse_from_text response =
     (let novelty = find_score response [''novelty'', ''novel''];
          feasibility = find_score response [''feasibility'', ''feasible''];
          specificity = find_score response [''specificity'', ''specific''];
          impact = find_score response [''impact''];
          average = mean_valid [novelty, feasibility, specificity, impact]
      in \<lparr> novelty_score = novelty, feasibility_score = feasibility,
            specificity_score = specificity, impact_score = impact,
            average_score = py_round2 average, feedback_text = JStr (take 2000 response),
            raw_response = Some response \<rparr>)"

definition parse_critique_response :: "py_env \<Rightarrow> string \<Rightarrow> py_exn + CritiqueMetrics" where
  "parse_critique_response env response =
     (case extract_json (loads_of env) response of
        Inl e \<Rightarrow> Inl e
      | Inr data \<Rightarrow>
          (case data of
             JObj d \<Rightarrow> critique_of_dict env d response
           | _ \<Rightarrow> Inr (parse_from_text response)))"

definition create_error_critique :: "string \<Rightarrow> CritiqueMetrics" where
  "create_error_critique error_msg =
     \<lparr> novelty_score = 0, feasibility_score = 0, specificity_score = 0, impact_score = 0,
       average_score = 0, feedback_text = JStr (''Error: '' @ error_msg),
       raw_response = None \<rparr>"

section \<open>Thresholds and classification (main.py)\<close>

text \<open>\<open>loop_settings = config.get("loop_settings", {})\<close> and the two thresholds with their
  defaults 3.0 and 2.0.\<close>

definition read_thresholds :: "json \<Rightarrow> py_exn + (json \<times> json)" where
  "read_thresholds config =
     (case py_get config ''loop_settings'' (JObj []) of
        Inl e \<Rightarrow> Inl e
      | Inr loop_settings \<Rightarrow>
         (case py_get loop_settings ''score_threshold'' (JFloat (Finite 3)) of
            Inl e \<Rightarrow> Inl e
          | Inr score_threshold \<Rightarrow>
             (case py_get loop_settings ''drop_threshold'' (JFloat (Finite 2)) of
                Inl e \<Rightarrow> Inl e
              | Inr drop_threshold \<Rightarrow> Inr (score_threshold, drop_threshold))))"

text \<open>The number a threshold stands for in a comparison, when it is an \<open>int\<close> or a finite
  \<open>float\<close>.\<close>

definition threshold_value :: "json \<Rightarrow> rat option" where
  "threshold_value v =
     (case v of JInt i \<Rightarrow> Some (of_int i) | JFloat f \<Rightarrow> (case f of Finite q \<Rightarrow> Some q | _ \<Rightarrow> None)
      | _ \<Rightarrow> None)"

datatype verdict = Accept | Drop | Refine

text \<open>The \<open>if\<close>/\<open>elif\<close>/\<open>else\<close> of the filter step.\<close>

definition classify :: "rat \<Rightarrow> json \<Rightarrow> json \<Rightarrow> py_exn + verdict" where
  "classify average score_threshold drop_threshold =
     (case py_ge average score_threshold of
        Inl e \<Rightarrow> Inl e
      | Inr True \<Rightarrow> Inr Accept
      | Inr False \<Rightarrow>
          (case py_lt average drop_threshold of
             Inl e \<Rightarrow> Inl e
           | Inr True \<Rightarrow> Inr Drop
           | Inr False \<Rightarrow> Inr Refine))"

section \<open>The model manager (core/model_manager.py)\<close>

text \<open>The constructor reads \<open>config.get("ollama", {}).get("base_url", ...)\<close>: a configuration
  or an \<open>ollama\<close> section that is no dict has no \<open>get\<close>.\<close>

definition model_manager_init :: "json \<Rightarrow> py_exn + unit" where
  "model_manager_init config =
     (case py_get config ''ollama'' (JObj []) of
        Inl e \<Rightarrow> Inl e
      | Inr ollama \<Rightarrow>
         (case py_get ollama ''base_url'' (JStr ''http://localhost:11434'') of
            Inl e \<Rightarrow> Inl e
          | Inr base_url \<Rightarrow> Inr ()))"

text \<open>\<open>get_model_config(role)\<close> is \<open>config.get("agent_models", {}).get(role, {})\<close>.\<close>

definition get_model_config :: "json \<Rightarrow> string \<Rightarrow> py_exn + json" where
  "get_model_config config role_name =
     (case py_get config ''agent_models'' (JObj []) of
        Inl e \<Rightarrow> Inl e
      | Inr agent_models \<Rightarrow> py_get agent_models role_name (JObj []))"

text \<open>\<open>load_model\<close>, \<open>unload_model\<close> and the constructor of an agent each read a setting of
  the role with \<open>get\<close>; the request of \<open>unload_model\<close> is inside a \<open>try\<close>, and reading the
  prompt file is left out.\<close>

definition role_settings :: "json \<Rightarrow> string \<Rightarrow> py_exn + unit" where
  "role_settings config role_name =
     (case get_model_config config role_name of
        Inl e \<Rightarrow> Inl e
      | Inr model_cfg \<Rightarrow>
         (case py_get model_cfg ''model'' JNull of
            Inl e \<Rightarrow> Inl e
          | Inr model \<Rightarrow> Inr ()))"

text \<open>\<open>generate_response\<close>: \<open>text\<close> is what the backend answers, and the empty string when
  the request fails, since both backend calls catch every exception. A provider other
  than the two known ones raises \<open>ValueError\<close>.\<close>

definition generate_response :: "json \<Rightarrow> string \<Rightarrow> string \<Rightarrow> py_exn + string" where
  "generate_response config role_name text =
     (case get_model_config config role_name of
        Inl e \<Rightarrow> Inl e
      | Inr model_cfg \<Rightarrow>
         (case py_get model_cfg ''provider'' JNull of
            Inl e \<Rightarrow> Inl e
          | Inr provider \<Rightarrow>
             (if provider = JStr ''ollama'' then Inr text
              else if provider = JStr ''ollama-cloud''
              then (case py_get config ''ollama'' (JObj []) of
                      Inl e \<Rightarrow> Inl e
                    | Inr ollama \<Rightarrow>
                       (case py_get ollama ''cloud_url'' JNull of
                          Inl e \<Rightarrow> Inl e
                        | Inr cloud_url \<Rightarrow> Inr text))
              else Inl ValueError)))"

section \<open>The refiner (agents/refiner.py)\<close>

text \<open>The two signs of the change list lie above code point 255; they are written as their
  UTF-8 bytes, and nothing in the model looks inside them.\<close>

definition bullet_sign :: string where
  "bullet_sign = [CHR 0xE2, CHR 0x80, CHR 0xA2]"

definition arrow_sign :: string where
  "arrow_sign = [CHR 0xE2, CHR 0x86, CHR 0x92]"

text \<open>One line per weakness that is a dict.\<close>

definition changes_list :: "py_env \<Rightarrow> json list \<Rightarrow> string list" where
  "changes_list env weaknesses =
     concat (map (\<lambda>w. case w of
                         JObj wd \<Rightarrow> [bullet_sign @ '' '' @ str_of env (dict_get wd ''weakness'' (JStr ''N/A''))
                                    @ '' '' @ arrow_sign @ '' ''
                                    @ str_of env (dict_get wd ''solution'' (JStr ''N/A''))]
                       | _ \<Rightarrow> []) weaknesses)"

text \<open>\<open>changes_made += text\<close>: a \<open>str\<close> is extended, a \<open>list\<close> takes the characters one by
  one, any other value raises \<open>TypeError\<close>.\<close>

definition py_iadd_str :: "json \<Rightarrow> string \<Rightarrow> py_exn + json" where
  "py_iadd_str v t =
     (case v of
        JStr u \<Rightarrow> Inr (JStr (u @ t))
      | JArr xs \<Rightarrow> Inr (JArr (xs @ map (\<lambda>c. JStr [c]) t))
      | _ \<Rightarrow> Inl TypeError)"

definition changes_made_of :: "py_env \<Rightarrow> (string \<times> json) list \<Rightarrow> py_exn + json" where
  "changes_made_of env d =
     (let changes = dict_get d ''changes_summary'' (JStr []) in
      if truthy (dict_get d ''addressed_weaknesses'' JNull)
      then (case dict_get d ''addressed_weaknesses'' JNull of
              JArr weaknesses \<Rightarrow>
                (if changes_list env weaknesses \<noteq> []
                 then py_iadd_str changes
                        ([CHR 0x0A, CHR 0x0A] @ ''**Addressed Weaknesses:**'' @ [CHR 0x0A]
                           @ join [CHR 0x0A] (changes_list env weaknesses))
                 else Inr changes)
            | _ \<Rightarrow> Inr changes)
      else Inr changes)"

text \<open>The provenance record of both branches of \<open>improve\<close>; slicing the feedback raises
  when it is neither a \<open>str\<close> nor a \<open>list\<close>.\<close>

definition details_record ::
  "IdeaContent \<Rightarrow> CritiqueMetrics \<Rightarrow> json \<Rightarrow> json \<Rightarrow> py_exn + RefinementDetails" where
  "details_record c q reasoning changes =
     (case py_slice_to (feedback_text q) 500 of
        Inl e \<Rightarrow> Inl e
      | Inr fb \<Rightarrow>
          Inr \<lparr> original_title = title c,
                original_methodology = methodology c,
                critique_feedback = fb,
                critique_score = average_score q,
                refinement_reasoning = reasoning,
                changes_made = changes \<rparr>)"

text \<open>The part of \<open>improve\<close> after \<open>generate\<close> has returned \<open>response\<close>.\<close>

definition refine_from_response ::
  "py_env \<Rightarrow> IdeaContent \<Rightarrow> CritiqueMetrics \<Rightarrow> string \<Rightarrow> py_exn + (IdeaContent \<times> RefinementDetails)" where
  "refine_from_response env c q response =
     (case extract_json (loads_of env) response of
        Inl e \<Rightarrow> Inl e
      | Inr data \<Rightarrow>
         (case data of
            JObj d \<Rightarrow>
              (let new_content =
                     \<lparr> title = dict_get d ''refined_title'' (title c),
                       methodology = dict_get d ''refined_methodology'' (methodology c),
                       description = dict_get d ''refined_description'' (description c),
                       raw_content = Some response \<rparr>
               in case changes_made_of env d of
                    Inl e \<Rightarrow> Inl e
                  | Inr changes \<Rightarrow>
                     (case details_record c q
                             (dict_get d ''thinking_process'' (JStr ''No reasoning provided''))
                             (if truthy changes then changes
                              else JStr ''No specific changes documented'') of
                        Inl e \<Rightarrow> Inl e
                      | Inr details \<Rightarrow> Inr (new_content, details)))
          | _ \<Rightarrow>
              (case details_record c q (JStr ''Parsing failed - using original content'')
                      (JStr ''No changes (parsing error)'') of
                 Inl e \<Rightarrow> Inl e
               | Inr details \<Rightarrow> Inr (c, details))))"

text \<open>\<open>improve\<close>. \<open>text\<close> is what the backend answers to the prompt. With no content or no
  critique the result is \<open>(content, None)\<close>; the progress line slices the title before
  \<open>generate\<close> is called.\<close>

definition improve ::
  "py_env \<Rightarrow> json \<Rightarrow> IdeaObject \<Rightarrow> string
     \<Rightarrow> py_exn + (IdeaContent option \<times> RefinementDetails option)" where
  "improve env config idea text =
     (case latest_content idea of
        None \<Rightarrow> Inr (None, None)
      | Some c \<Rightarrow>
         (case latest_critique idea of
            None \<Rightarrow> Inr (Some c, None)
          | Some q \<Rightarrow>
             (case py_slice_to (title c) 50 of
                Inl e \<Rightarrow> Inl e
              | Inr shown \<Rightarrow>
                 (case generate_response config ''refiner'' text of
                    Inl e \<Rightarrow> Inl e
                  | Inr response \<Rightarrow>
                     (case refine_from_response env c q response of
                        Inl e \<Rightarrow> Inl e
                      | Inr (new_content, details) \<Rightarrow>
                          Inr (Some new_content, Some details))))))"

section \<open>The critic's batch step\<close>

text \<open>\<open>evaluate\<close> over references into the store of idea objects; \<open>gen i\<close> is the text
  the backend answers for idea \<open>i\<close>.\<close>

type_synonym store = "IdeaObject list"

definition evaluate_one ::
  "py_env \<Rightarrow> json \<Rightarrow> IdeaObject \<Rightarrow> string \<Rightarrow> py_exn + CritiqueMetrics" where
  "evaluate_one env config idea text =
     (case latest_content idea of
        None \<Rightarrow> Inr (create_error_critique ''No content found'')
      | Some c \<Rightarrow>
         (case py_slice_to (title c) 50 of
            Inl e \<Rightarrow> Inl e
          | Inr shown \<Rightarrow>
             (case generate_response config ''critic'' text of
                Inl e \<Rightarrow> Inl e
              | Inr response \<Rightarrow> parse_critique_response env response)))"

fun evaluate ::
  "py_env \<Rightarrow> json \<Rightarrow> (nat \<Rightarrow> string) \<Rightarrow> store \<Rightarrow> nat list \<Rightarrow> py_exn + CritiqueMetrics list" where
  "evaluate env config gen h [] = Inr []"
| "evaluate env config gen h (i # ideas) =
     (case evaluate_one env config (h ! i) (gen i) of
        Inl e \<Rightarrow> Inl e
      | Inr q \<Rightarrow>
         (case evaluate env config gen h ideas of
            Inl e \<Rightarrow> Inl e
          | Inr qs \<Rightarrow> Inr (q # qs)))"

section \<open>The lifecycle controller (main.py)\<close>

text \<open>\<open>idea.evolution_history[-1].critique = review\<close>, when the history is not empty.\<close>

definition attach_critique :: "IdeaObject \<Rightarrow> CritiqueMetrics \<Rightarrow> IdeaObject" where
  "attach_critique idea review =
     (if evolution_history idea \<noteq> []
      then idea \<lparr> evolution_history :=
                    butlast (evolution_history idea)
                    @ [(last (evolution_history idea)) \<lparr> critique := Some review \<rparr>] \<rparr>
      else idea)"

text \<open>The progress line \<open>idea.latest_content.title[:30]\<close>.\<close>

definition shown_title :: "IdeaObject \<Rightarrow> py_exn + json" where
  "shown_title idea =
     (case latest_content idea of
        None \<Rightarrow> Inl AttributeError
      | Some c \<Rightarrow> py_slice_to (title c) 30)"

text \<open>Step 4, the filter over \<open>zip(ideas, critiques)\<close>.\<close>

fun filter_ideas ::
  "json \<Rightarrow> json \<Rightarrow> store \<Rightarrow> (nat \<times> CritiqueMetrics) list \<Rightarrow> nat list \<Rightarrow> nat list
     \<Rightarrow> py_exn + (store \<times> nat list \<times> nat list)" where
  "filter_ideas st dt h [] accepted_ideas needs_refinement =
     Inr (h, accepted_ideas, needs_refinement)"
| "filter_ideas st dt h ((i, review) # rest) accepted_ideas needs_refinement =
     (let idea = attach_critique (h ! i) review in
      case shown_title idea of
        Inl e \<Rightarrow> Inl e
      | Inr shown \<Rightarrow>
         (case classify (average_score review) st dt of
            Inl e \<Rightarrow> Inl e
          | Inr v \<Rightarrow>
             (case v of
                Accept \<Rightarrow>
                  filter_ideas st dt (h[i := idea \<lparr> status := ''accepted'' \<rparr>]) rest
                    (accepted_ideas @ [i]) needs_refinement
              | Drop \<Rightarrow>
                  filter_ideas st dt (h[i := idea \<lparr> status := ''rejected'' \<rparr>]) rest
                    accepted_ideas needs_refinement
              | Refine \<Rightarrow>
                  filter_ideas st dt (h[i := idea]) rest
                    accepted_ideas (needs_refinement @ [i]))))"

text \<open>Step 5, the refiner over \<open>needs_refinement\<close>; \<open>gen i\<close> is the refiner's text for idea
  \<open>i\<close> in this pass.\<close>

fun refine_ideas ::
  "py_env \<Rightarrow> json \<Rightarrow> (nat \<Rightarrow> string) \<Rightarrow> nat \<Rightarrow> store \<Rightarrow> nat list \<Rightarrow> nat list
     \<Rightarrow> py_exn + (store \<times> nat list)" where
  "refine_ideas env config gen loop h [] refined_ideas = Inr (h, refined_ideas)"
| "refine_ideas env config gen loop h (i # rest) refined_ideas =
     (case improve env config (h ! i) (gen i) of
        Inl e \<Rightarrow> Inl e
      | Inr (new_content, details) \<Rightarrow>
         (let idea = h ! i;
              new_snapshot = \<lparr> iteration = int loop + 1, role = ''refined'',
                               content = new_content, critique = None,
                               refinement_details = details \<rparr>
          in refine_ideas env config gen loop
               (h[i := idea \<lparr> evolution_history := evolution_history idea @ [new_snapshot],
                              current_iteration := current_iteration idea + 1 \<rparr>])
               rest (refined_ideas @ [i])))"

text \<open>\<open>for loop in range(max_loops)\<close>: \<open>n\<close> passes are left and \<open>loop\<close> have been made. The
  result is the store, the list \<open>ideas\<close> and the list \<open>accepted_ideas\<close> after the loop.\<close>

fun loop_passes ::
  "py_env \<Rightarrow> json \<Rightarrow> (nat \<Rightarrow> nat \<Rightarrow> string) \<Rightarrow> (nat \<Rightarrow> nat \<Rightarrow> string) \<Rightarrow> json \<Rightarrow> json
     \<Rightarrow> nat \<Rightarrow> nat \<Rightarrow> store \<Rightarrow> nat list \<Rightarrow> nat list
     \<Rightarrow> py_exn + (store \<times> nat list \<times> nat list)" where
  "loop_passes env config critic_gen refiner_gen st dt 0 loop h ideas accepted_ideas =
     Inr (h, ideas, accepted_ideas)"
| "loop_passes env config critic_gen refiner_gen st dt (Suc n) loop h ideas accepted_ideas =
     (if ideas = [] then Inr (h, ideas, accepted_ideas)
      else
        (case evaluate env config (critic_gen loop) h ideas of
           Inl e \<Rightarrow> Inl e
         | Inr critiques \<Rightarrow>
            (case filter_ideas st dt h (zip ideas critiques) accepted_ideas [] of
               Inl e \<Rightarrow> Inl e
             | Inr (h1, accepted1, needs_refinement) \<Rightarrow>
                (if needs_refinement = [] then Inr (h1, ideas, accepted1)
                 else
                   (case refine_ideas env config (refiner_gen loop) loop h1 needs_refinement [] of
                      Inl e \<Rightarrow> Inl e
                    | Inr (h2, refined_ideas) \<Rightarrow>
                        loop_passes env config critic_gen refiner_gen st dt n (Suc loop) h2
                          refined_ideas accepted1)))))"

text \<open>After the loop: every idea of \<open>ideas\<close> that is still active is kept as best effort.\<close>

fun finalize :: "store \<Rightarrow> nat list \<Rightarrow> nat list \<Rightarrow> store \<times> nat list" where
  "finalize h [] accepted_ideas = (h, accepted_ideas)"
| "finalize h (i # ideas) accepted_ideas =
     (if status (h ! i) = ''active''
      then finalize (h[i := (h ! i) \<lparr> status := ''refined_best_effort'' \<rparr>]) ideas
             (accepted_ideas @ [i])
      else finalize h ideas accepted_ideas)"

text \<open>The check in the constructor of the generator: both OpenAlex settings must be there.
  On a \<open>str\<close> the test \<open>in\<close> looks for a substring and on a \<open>list\<close> for an element, and the
  subscript with a key that follows raises \<open>TypeError\<close>; any other value cannot be
  searched.\<close>

definition generator_init :: "json \<Rightarrow> py_exn + unit" where
  "generator_init config =
     (case py_get config ''openalex'' (JObj []) of
        Inl e \<Rightarrow> Inl e
      | Inr openalex_config \<Rightarrow>
         (case openalex_config of
            JObj d \<Rightarrow>
              (if map_of d ''fetch_limit'' = None \<or> map_of d ''top_k_papers'' = None
               then Inl ValueError else Inr ())
          | JStr t \<Rightarrow>
              (if str_find t ''fetch_limit'' = -1 \<or> str_find t ''top_k_papers'' = -1
               then Inl ValueError else Inl TypeError)
          | JArr xs \<Rightarrow>
              (if JStr ''fetch_limit'' \<notin> set xs \<or> JStr ''top_k_papers'' \<notin> set xs
               then Inl ValueError else Inl TypeError)
          | _ \<Rightarrow> Inl TypeError))"

text \<open>
  What \<open>research_loop\<close> does around the thresholds before its loop, in order: the model
  manager, \<open>load_model("generator")\<close>, the generator's constructor with its check,
  the one call of \<open>generate\<close> in \<open>create_drafts\<close>, \<open>unload_model("generator")\<close>, and the
  constructors of the critic and the refiner.
\<close>

definition agents_setup :: "json \<Rightarrow> py_exn + unit" where
  "agents_setup config =
     (case role_settings config ''generator'' of
        Inl e \<Rightarrow> Inl e
      | Inr u1 \<Rightarrow>
         (case generator_init config of
            Inl e \<Rightarrow> Inl e
          | Inr u2 \<Rightarrow>
             (case generate_response config ''generator'' [] of
                Inl e \<Rightarrow> Inl e
              | Inr drafts_text \<Rightarrow>
                 (case role_settings config ''critic'' of
                    Inl e \<Rightarrow> Inl e
                  | Inr u3 \<Rightarrow> role_settings config ''refiner''))))"

text \<open>
  \<open>research_loop\<close> up to the saved results. \<open>config\<close> is the loaded configuration and
  \<open>drafts\<close> the idea objects \<open>create_drafts\<close> returns, which become the store; \<open>critic_gen
  loop i\<close> and \<open>refiner_gen loop i\<close> are the texts the two backends answer for idea \<open>i\<close> in
  pass \<open>loop\<close>. The result is the final store and the references saved to the output file,
  in order.
\<close>

definition research_loop ::
  "py_env \<Rightarrow> json \<Rightarrow> store \<Rightarrow> int \<Rightarrow> (nat \<Rightarrow> nat \<Rightarrow> string) \<Rightarrow> (nat \<Rightarrow> nat \<Rightarrow> string)
     \<Rightarrow> py_exn + (store \<times> nat list)" where
  "research_loop env config drafts max_loops critic_gen refiner_gen =
     (case model_manager_init config of
        Inl e \<Rightarrow> Inl e
      | Inr u0 \<Rightarrow>
     (case read_thresholds config of
        Inl e \<Rightarrow> Inl e
      | Inr (score_threshold, drop_threshold) \<Rightarrow>
         (case agents_setup config of
            Inl e \<Rightarrow> Inl e
          | Inr u \<Rightarrow>
             (case loop_passes env config critic_gen refiner_gen score_threshold drop_threshold
                     (nat max_loops) 0 drafts [0..<length drafts] [] of
                Inl e \<Rightarrow> Inl e
              | Inr (h, ideas, accepted_ideas) \<Rightarrow> Inr (finalize h ideas accepted_ideas)))))"

text \<open>The array written to the output file.\<close>

definition saved_ideas :: "store \<times> nat list \<Rightarrow> IdeaObject list" where
  "saved_ideas r = map (\<lambda>i. fst r ! i) (snd r)"

text \<open>An idea as \<open>create_drafts\<close> makes it: active, iteration 0, one draft snapshot without
  critique.\<close>

definition is_draft :: "IdeaObject \<Rightarrow> bool" where
  "is_draft idea =
     (status idea = ''active'' \<and> current_iteration idea = 0
      \<and> length (evolution_history idea) = 1
      \<and> content (hd (evolution_history idea)) \<noteq> None
      \<and> critique (hd (evolution_history idea)) = None)"

text \<open>A concrete environment for evaluation: the JSON reader above, \<open>str\<close> of a string,
  an integer, \<open>None\<close> and a truth value, and \<open>int\<close> of an optionally signed run of ASCII
  digits inside white space.\<close>

fun nat_digits :: "nat \<Rightarrow> nat \<Rightarrow> string" where
  "nat_digits 0 n = []"
| "nat_digits (Suc k) n =
     (if n < 10 then [char_of (48 + n)] else nat_digits k (n div 10) @ [char_of (48 + n mod 10)])"

definition int_str :: "int \<Rightarrow> string" where
  "int_str i = (if i < 0 then ''-'' @ nat_digits (Suc (nat (- i))) (nat (- i))
               else nat_digits (Suc (nat i)) (nat i))"

definition simple_str :: "json \<Rightarrow> string" where
  "simple_str v =
     (case v of JStr t \<Rightarrow> t | JInt i \<Rightarrow> int_str i | JNull \<Rightarrow> ''None''
      | JBool b \<Rightarrow> (if b then ''True'' else ''False'') | _ \<Rightarrow> ''?'')"

definition simple_int :: "string \<Rightarrow> int option" where
  "simple_int t =
     (let u = strip t;
          (sign, ds) = (case u of [] \<Rightarrow> (1, [])
                        | c # cs \<Rightarrow> if c = CHR ''-'' then (-1, cs)
                                    else if c = CHR ''+'' then (1, cs) else (1, u))
      in if ds \<noteq> [] \<and> list_all is_digit ds then Some (sign * digits_val 0 ds) else None)"

definition simple_env :: py_env where
  "simple_env = \<lparr> loads_of = json_loads, str_of = simple_str, int_of_str = simple_int \<rparr>"

section \<open>Example inputs\<close>

text \<open>A draft idea, a critique that asks for refinement, the draft with that critique
  attached, and a configuration with the OpenAlex settings and the three agents on the
  local provider, and with no \<open>loop_settings\<close>.\<close>

definition example_content :: IdeaContent where
  "example_content =
     \<lparr> title = JStr ''Graph model'', methodology = JStr ''Use a GNN'',
       description = JStr ''A sketch'', raw_content = None \<rparr>"

definition example_draft :: IdeaObject where
  "example_draft =
     \<lparr> idea_id = ''idea-1'', current_iteration = 0, status = ''active'',
       evolution_history =
         [\<lparr> iteration = 0, role = ''draft'', content = Some example_content,
            critique = None, refinement_details = None \<rparr>] \<rparr>"

definition example_critique :: CritiqueMetrics where
  "example_critique =
     \<lparr> novelty_score = 2, feasibility_score = 3, specificity_score = 0, impact_score = 0,
       average_score = 5 / 2, feedback_text = JStr ''Too vague'', raw_response = None \<rparr>"

definition example_reviewed :: IdeaObject where
  "example_reviewed = attach_critique example_draft example_critique"

definition example_config :: json where
  "example_config =
     JObj [(''ollama'', JObj [(''base_url'', JStr ''http://localhost:11434'')]),
           (''agent_models'',
              JObj [(''generator'', JObj [(''provider'', JStr ''ollama''), (''model'', JStr ''llama3'')]),
                    (''critic'', JObj [(''provider'', JStr ''ollama''), (''model'', JStr ''llama3'')]),
                    (''refiner'', JObj [(''provider'', JStr ''ollama''), (''model'', JStr ''llama3'')])]),
           (''openalex'', JObj [(''fetch_limit'', JInt 100), (''top_k_papers'', JInt 10)])]"

section \<open>Invariants of the controller\<close>



section \<open>Properties of extract_json\<close>

lemma extract_json_cases:
  "extract_json loads text =
     (case extract_json_try loads text of Inl e \<Rightarrow> Inr JNull | Inr v \<Rightarrow> Inr v)"
  by (simp add: extract_json_def split: sum.splits)

text \<open>
  C8. \<open>extract_json\<close> raises for no text, whatever \<open>json.loads\<close> does on the texts it is
  given: it returns a parsed value or \<open>None\<close>.
\<close>

theorem extract_json_never_raises:
  "\<exists>v. extract_json loads text = Inr v"
  by (simp add: extract_json_cases split: sum.splits)

text \<open>
  C1, as stated, fails. In the text below step 1 finds a fenced block whose inner text is
  not JSON, and the bracket slice of step 2 is a JSON object; \<open>extract_json\<close> returns
  \<open>None\<close> all the same, since the failed parse of step 1 leaves the \<open>try\<close> block.
\<close>

theorem extract_json_fence_failure_is_final:
  "search_fenced ''```json not json ``` {\"a\":1}'' = Some ''not json ''
   \<and> json_loads (strip ''not json '') = Inl JSONDecodeError
   \<and> bracket_slice ''```json not json ``` {\"a\":1}'' = Some ''{\"a\":1}''
   \<and> json_loads ''{\"a\":1}'' = Inr (JObj [(''a'', JInt 1)])
   \<and> extract_json json_loads ''```json not json ``` {\"a\":1}'' = Inr JNull"
  by code_simp

text \<open>
  C1, amended. Exactly one step parses: the first fenced block when there is one, else
  the bracket slice when there is one, else the whole text. \<open>extract_json\<close> returns what
  that parse returns, and \<open>None\<close> when that parse raises; no later step is tried.
\<close>

theorem extract_json_single_step:
  "extract_json loads text =
     (case loads (case search_fenced text of
                    Some g \<Rightarrow> strip g
                  | None \<Rightarrow> (case bracket_slice text of Some b \<Rightarrow> b | None \<Rightarrow> text))
      of Inl e \<Rightarrow> Inr JNull | Inr v \<Rightarrow> Inr v)"
  by (simp add: extract_json_cases extract_json_try_def split: option.splits)

theorem extract_json_single_step_witness:
  "extract_json json_loads ''x ```json {\"a\":1} ``` y'' = Inr (JObj [(''a'', JInt 1)])
   \<and> extract_json json_loads ''noise {\"a\":1} trailing'' = Inr (JObj [(''a'', JInt 1)])
   \<and> extract_json json_loads ''[1, 2'' = Inr JNull"
proof -
  have f: "search_fenced ''x ```json {\"a\":1} ``` y'' = Some ''{\"a\":1} ''"
    by code_simp
  have l: "json_loads (strip ''{\"a\":1} '') = Inr (JObj [(''a'', JInt 1)])"
    by code_simp
  have n: "search_fenced ''noise {\"a\":1} trailing'' = None"
    "bracket_slice ''noise {\"a\":1} trailing'' = Some ''{\"a\":1}''"
    "json_loads ''{\"a\":1}'' = Inr (JObj [(''a'', JInt 1)])"
    by code_simp+
  have w: "search_fenced ''[1, 2'' = None" "bracket_slice ''[1, 2'' = None"
    "json_loads ''[1, 2'' = Inl JSONDecodeError"
    by code_simp+
  show ?thesis
    using extract_json_single_step [of json_loads "''x ```json {\"a\":1} ``` y''"]
      extract_json_single_step [of json_loads "''noise {\"a\":1} trailing''"]
      extract_json_single_step [of json_loads "''[1, 2''"]
    by (simp only: f l n w option.case sum.case simp_thms)
qed

section \<open>Classification against the thresholds\<close>

text \<open>
  C2, as stated, fails at its last clause: with the thresholds 3.0 and 2.0 an average
  of exactly 2.0 is not dropped, it is queued for refinement (the code drops on
  \<open>average < drop_threshold\<close>).
\<close>

theorem classify_at_drop_threshold_refines:
  "classify 2 (JFloat (Finite 3)) (JFloat (Finite 2)) = Inr Refine"
  by (simp add: classify_def py_ge_def py_lt_def)

text \<open>
  C2, amended. For numeric thresholds the class is accept when the average is at least
  the accept threshold, else drop when it is strictly below the drop threshold, else
  refine. So an average equal to the accept threshold is accepted, and one equal to the
  drop threshold (and below the accept threshold) is refined.
\<close>

theorem classify_thresholds:
  assumes "threshold_value score_threshold = Some a"
    and "threshold_value drop_threshold = Some d"
  shows "classify average score_threshold drop_threshold =
           Inr (if average \<ge> a then Accept else if average < d then Drop else Refine)"
  using assms
  by (auto simp: classify_def threshold_value_def py_ge_def py_lt_def
           split: json.splits pyfloat.splits)

theorem classify_thresholds_witness:
  "threshold_value (JFloat (Finite 3)) = Some 3
   \<and> threshold_value (JInt 2) = Some 2
   \<and> classify 3 (JFloat (Finite 3)) (JInt 2) = Inr Accept
   \<and> classify 2 (JFloat (Finite 3)) (JInt 2) = Inr Refine
   \<and> classify (199 / 100) (JFloat (Finite 3)) (JInt 2) = Inr Drop"
proof -
  have a: "threshold_value (JFloat (Finite 3)) = Some 3"
    and d: "threshold_value (JInt 2) = Some 2"
    by (simp_all add: threshold_value_def)
  show ?thesis
    using a d classify_thresholds [OF a d, of 3] classify_thresholds [OF a d, of 2]
      classify_thresholds [OF a d, of "199 / 100"]
    by simp
qed

section \<open>The stored average of a critique\<close>






text \<open>
  C4 fails on the JSON path, which stores whatever integer the model wrote: a score of
  9 gives the average 9.0, above 5, and a score of -3 gives the average 0.0 with a
  score field that is not 0. The text path admits a digit only from 1 to 5.
\<close>

theorem critique_json_scores_unchecked:
  "(case parse_critique_response simple_env ''{\"novelty_score\": 9}'' of
      Inl e \<Rightarrow> False
    | Inr c \<Rightarrow> novelty_score c = 9 \<and> average_score c = 9 \<and> \<not> average_score c \<le> 5)
   \<and> (case parse_critique_response simple_env ''{\"novelty_score\": -3}'' of
      Inl e \<Rightarrow> False
    | Inr c \<Rightarrow> average_score c = 0 \<and> novelty_score c = - 3)"
  by code_simp

section \<open>The refiner's result\<close>

lemma example_latest_content: "latest_content example_reviewed = Some example_content"
  by (simp add: example_reviewed_def attach_critique_def example_draft_def latest_content_def)

lemma example_latest_critique: "latest_critique example_reviewed = Some example_critique"
  by (simp add: example_reviewed_def attach_critique_def example_draft_def latest_critique_def)

text \<open>
  C6 fails when the extracted object has the key \<open>refined_title\<close> with the value \<open>null\<close>:
  \<open>improve\<close> returns a content whose title is \<open>None\<close>, although the prior title is a
  string, and the next pass of the critic slices that title and raises \<open>TypeError\<close>, so
  the run stops. A key that is left out does fall back to the prior field.
\<close>

theorem improve_takes_null_title:
  "improve simple_env example_config example_reviewed ''{\"refined_title\": null}''
   = Inr (Some \<lparr> title = JNull, methodology = JStr ''Use a GNN'', description = JStr ''A sketch'',
                 raw_content = Some ''{\"refined_title\": null}'' \<rparr>,
          Some \<lparr> original_title = JStr ''Graph model'', original_methodology = JStr ''Use a GNN'',
                 critique_feedback = JStr ''Too vague'', critique_score = 5 / 2,
                 refinement_reasoning = JStr ''No reasoning provided'',
                 changes_made = JStr ''No specific changes documented'' \<rparr>)
   \<and> research_loop simple_env example_config [example_draft] 2
        (\<lambda>loop i. ''{\"novelty_score\": 2, \"feasibility_score\": 3}'')
        (\<lambda>loop i. ''{\"refined_title\": null}'') = Inl TypeError"
  by code_simp

text \<open>The part of C6 that holds: a field whose key the extracted dict leaves out is the
  prior content's field, each of the three on its own.\<close>

lemma improve_omitted_field_falls_back:
  assumes "latest_content idea = Some c" and "latest_critique idea = Some q"
    and "generate_response config ''refiner'' text = Inr response"
    and "extract_json (loads_of env) response = Inr (JObj d)"
    and "improve env config idea text = Inr (new_content, details)"
  shows "\<exists>c'. new_content = Some c'
           \<and> (map_of d ''refined_title'' = None \<longrightarrow> title c' = title c)
           \<and> (map_of d ''refined_methodology'' = None \<longrightarrow> methodology c' = methodology c)
           \<and> (map_of d ''refined_description'' = None \<longrightarrow> description c' = description c)"
  using assms
  by (auto simp: improve_def refine_from_response_def dict_get_def Let_def
        split: sum.splits option.splits prod.splits)

text \<open>
  C7 fails on a critique the critic itself builds. The critic's text below has
  \<open>"overall_feedback": null\<close>, so the critique's feedback text is \<open>None\<close>; when the refiner's
  answer is no JSON, the fallback branch of \<open>improve\<close> slices that feedback and raises
  \<open>TypeError\<close> instead of returning the prior content.
\<close>

theorem improve_fallback_raises_on_null_feedback:
  "(case parse_critique_response simple_env
           ''{\"novelty_score\": 2, \"feasibility_score\": 3, \"overall_feedback\": null}'' of
      Inl e \<Rightarrow> False
    | Inr q \<Rightarrow>
        feedback_text q = JNull
        \<and> extract_json (loads_of simple_env) ''I cannot improve this.'' = Inr JNull
        \<and> improve simple_env example_config (attach_critique example_draft q)
              ''I cannot improve this.'' = Inl TypeError)"
  by code_simp

text \<open>
  The part of C7 that holds: when the title and the critique's feedback are strings, as
  the dataclasses declare them, and the extraction gives no dict, \<open>improve\<close> returns the
  prior content itself and a record whose reasoning field says that parsing failed.
\<close>

lemma improve_keeps_content_on_parse_failure:
  assumes "latest_content idea = Some c" and "latest_critique idea = Some q"
    and "title c = JStr t" and "feedback_text q = JStr fb"
    and "generate_response config ''refiner'' text = Inr response"
    and "\<forall>d. extract_json (loads_of env) response \<noteq> Inr (JObj d)"
  shows "\<exists>details. improve env config idea text = Inr (Some c, Some details)
           \<and> refinement_reasoning details = JStr ''Parsing failed - using original content''
           \<and> changes_made details = JStr ''No changes (parsing error)''
           \<and> original_title details = title c
           \<and> original_methodology details = methodology c"
proof -
  obtain v where v: "extract_json (loads_of env) response = Inr v"
    by (cases "extract_json_try (loads_of env) response") (simp_all add: extract_json_cases)
  with assms(6) have nd: "\<And>d. v \<noteq> JObj d" by auto
  show ?thesis
    using assms(1-5) v nd
    by (cases v) (auto simp add: improve_def refine_from_response_def details_record_def
          py_slice_to_def)
qed

section \<open>Thresholds at startup\<close>

text \<open>
  C9, as stated, fails. With a configuration that has every setting the agents need and
  no \<open>loop_settings\<close>, the thresholds are 3.0 and 2.0, and the run goes through its pass
  and saves an accepted idea.
\<close>

theorem missing_thresholds_run_proceeds:
  "read_thresholds example_config = Inr (JFloat (Finite 3), JFloat (Finite 2))
   \<and> (case research_loop simple_env example_config [example_draft] 1
              (\<lambda>loop i. ''{\"novelty_score\": 4, \"feasibility_score\": 3}'')
              (\<lambda>loop i. ''{}'') of
         Inl e \<Rightarrow> False
       | Inr r \<Rightarrow> map status (saved_ideas r) = [''accepted''])"
  by code_simp

text \<open>
  C9, amended. Missing thresholds never fail the run: when \<open>loop_settings\<close> is a dict, or
  is absent and so taken as the empty dict, a threshold the dict lacks takes its default,
  3.0 for \<open>score_threshold\<close> and 2.0 for \<open>drop_threshold\<close>, and when the rest of the startup
  succeeds the run enters its loop with these thresholds and ends as the loop and the
  finalization end.
\<close>

theorem missing_thresholds_take_defaults:
  assumes "model_manager_init config = Inr ()"
    and "py_get config ''loop_settings'' (JObj []) = Inr (JObj ls)"
    and "agents_setup config = Inr ()"
  shows "read_thresholds config =
           Inr (case map_of ls ''score_threshold'' of None \<Rightarrow> JFloat (Finite 3) | Some v \<Rightarrow> v,
                case map_of ls ''drop_threshold'' of None \<Rightarrow> JFloat (Finite 2) | Some v \<Rightarrow> v)
         \<and> research_loop env config drafts max_loops critic_gen refiner_gen =
           (case loop_passes env config critic_gen refiner_gen
                   (case map_of ls ''score_threshold'' of None \<Rightarrow> JFloat (Finite 3) | Some v \<Rightarrow> v)
                   (case map_of ls ''drop_threshold'' of None \<Rightarrow> JFloat (Finite 2) | Some v \<Rightarrow> v)
                   (nat max_loops) 0 drafts [0..<length drafts] [] of
              Inl e \<Rightarrow> Inl e
            | Inr (h, ideas, accepted_ideas) \<Rightarrow> Inr (finalize h ideas accepted_ideas))"
  using assms
  by (simp add: research_loop_def read_thresholds_def py_get_def dict_get_def)

theorem missing_thresholds_take_defaults_witness:
  "model_manager_init example_config = Inr ()
   \<and> py_get example_config ''loop_settings'' (JObj []) = Inr (JObj [])
   \<and> agents_setup example_config = Inr ()
   \<and> read_thresholds example_config = Inr (JFloat (Finite 3), JFloat (Finite 2))
   \<and> research_loop simple_env example_config [example_draft] 0 (\<lambda>loop i. []) (\<lambda>loop i. [])
       = (case loop_passes simple_env example_config (\<lambda>loop i. []) (\<lambda>loop i. [])
                 (JFloat (Finite 3)) (JFloat (Finite 2)) (nat 0) 0 [example_draft]
                 [0..<length [example_draft]] [] of
            Inl e \<Rightarrow> Inl e
          | Inr (h, ideas, accepted_ideas) \<Rightarrow> Inr (finalize h ideas accepted_ideas))"
proof -
  have m: "model_manager_init example_config = Inr ()" by code_simp
  have l: "py_get example_config ''loop_settings'' (JObj []) = Inr (JObj [])" by code_simp
  have a: "agents_setup example_config = Inr ()" by code_simp
  show ?thesis
    using m l a
      missing_thresholds_take_defaults [OF m l a, of simple_env "[example_draft]" 0
        "\<lambda>loop i. []" "\<lambda>loop i. []"]
    by simp
qed

text \<open>The startup does stop a run whose configuration lacks the OpenAlex settings, such
  as the empty dict that \<open>_load_config\<close> returns when the file cannot be loaded: the
  generator's constructor raises \<open>ValueError\<close>, whatever the thresholds.\<close>

lemma empty_config_stops_in_generator:
  "research_loop env (JObj []) drafts max_loops critic_gen refiner_gen = Inl ValueError"
  by (simp add: research_loop_def model_manager_init_def read_thresholds_def agents_setup_def
        role_settings_def get_model_config_def generator_init_def py_get_def dict_get_def)

section \<open>A critique that stops the run\<close>

text \<open>
  C5 fails on the run below. The critic's text gives the scores 2 and 3 and
  \<open>"overall_feedback": null\<close>; the critique has the average 2.5, which asks for
  refinement under the thresholds 3.0 and 2.0, and its feedback text is \<open>None\<close>.
  The refiner then slices that feedback and raises \<open>TypeError\<close>: the run stops in its only
  pass, and no idea reaches the status \<open>refined_best_effort\<close>.
\<close>

theorem refine_verdict_run_aborts:
  "(case parse_critique_response simple_env
           ''{\"novelty_score\": 2, \"feasibility_score\": 3, \"overall_feedback\": null}'' of
      Inl e \<Rightarrow> False
    | Inr q \<Rightarrow> average_score q = 5 / 2 \<and> feedback_text q = JNull
               \<and> classify (average_score q) (JFloat (Finite 3)) (JFloat (Finite 2)) = Inr Refine)
   \<and> research_loop simple_env example_config [example_draft] 1
        (\<lambda>loop i. ''{\"novelty_score\": 2, \"feasibility_score\": 3, \"overall_feedback\": null}'')
        (\<lambda>loop i. ''{\"refined_title\": \"Better\"}'') = Inl TypeError"
  by code_simp

section \<open>What the run saves\<close>


lemma status_attach [simp]: "status (attach_critique idea q) = status idea"
  by (simp add: attach_critique_def)









end
